theory Spec2Isabelle
  imports Complex_Main "HOL-Library.Char_ord" "HOL-Library.List_Lexorder"
begin

section \<open>Energy measurement (energy_meter.py)\<close>

text \<open>
  A shallow embedding of \<^verbatim>\<open>energy_meter.py\<close>.

  Python's \<^verbatim>\<open>float\<close> is modelled by \<^typ>\<open>real\<close>: arithmetic is exact, and rounding,
  infinities and NaN are outside the model. \<^verbatim>\<open>Optional[float]\<close> is \<^typ>\<open>real option\<close>.
  The functions \<^verbatim>\<open>_rapl_packages\<close>, \<^verbatim>\<open>_read_rapl_uj\<close> and \<^verbatim>\<open>_read_cpu_time\<close> lose their
  leading underscore, which an Isabelle name cannot start with.
\<close>

subsection \<open>Data model\<close>

record EnergyReading =
  timestamp :: real
  rapl_joules :: "real option"
  cpu_time_seconds :: "real option"

record EnergyMeasurement =
  duration_seconds :: real
  energy_joules :: real
  source :: string
  "notes" :: string

definition DEFAULT_TDP_WATTS :: real where
  "DEFAULT_TDP_WATTS = 15"

subsection \<open>Exceptions\<close>

text \<open>
  The exceptions that the calls of the module raise. \<^verbatim>\<open>FileNotFoundError\<close>,
  \<^verbatim>\<open>PermissionError\<close> and \<^verbatim>\<open>NotADirectoryError\<close> are subclasses of \<^verbatim>\<open>OSError\<close>, so a clause
  \<^verbatim>\<open>except (OSError, ValueError)\<close> catches them.
\<close>

datatype py_error =
  FileNotFoundError | PermissionError | NotADirectoryError | ValueError
  | ImportError | OtherException

definition is_OSError :: "py_error \<Rightarrow> bool" where
  "is_OSError err =
     (err = FileNotFoundError \<or> err = PermissionError \<or> err = NotADirectoryError)"

subsection \<open>The environment\<close>

text \<open>
  The code reads three things from its surroundings: the directory
  \<^verbatim>\<open>/sys/class/powercap\<close>, the CPU times that psutil reports, and the monotonic clock.

  A file below a package directory is in one of five states:
  \<^item> \<open>Missing\<close>: it does not exist;
  \<^item> \<open>Inaccessible\<close>: the package directory may not be searched, so that both asking
    whether the file exists and reading it raise \<^verbatim>\<open>PermissionError\<close>;
  \<^item> \<open>Unreadable\<close>: it exists and reading it raises \<^verbatim>\<open>PermissionError\<close>;
  \<^item> \<open>NonNumeric\<close>: it is read and its text is no float literal;
  \<^item> \<open>Numeric v\<close>: it is read and its text denotes the number \<open>v\<close>.
\<close>

datatype file_state = Missing | Inaccessible | Unreadable | NonNumeric | Numeric real

text \<open>
  \<^verbatim>\<open>path.exists()\<close>: pathlib answers \<^verbatim>\<open>False\<close> for a file that is not there and lets
  every other \<^verbatim>\<open>OSError\<close> of the underlying \<^verbatim>\<open>stat\<close> pass.
\<close>

fun exists_file :: "file_state \<Rightarrow> py_error + bool" where
  "exists_file Missing = Inr False"
| "exists_file Inaccessible = Inl PermissionError"
| "exists_file Unreadable = Inr True"
| "exists_file NonNumeric = Inr True"
| "exists_file (Numeric v) = Inr True"

text \<open>\<^verbatim>\<open>float(path.read_text().strip())\<close>\<close>

fun read_float :: "file_state \<Rightarrow> py_error + real" where
  "read_float Missing = Inl FileNotFoundError"
| "read_float Inaccessible = Inl PermissionError"
| "read_float Unreadable = Inl PermissionError"
| "read_float NonNumeric = Inl ValueError"
| "read_float (Numeric v) = Inr v"

text \<open>
  An entry of the powercap directory: its name, and the state of the two files the code
  looks for below it. An entry that is no directory has both files missing.
\<close>

record dir_entry =
  name :: string
  energy_uj :: file_state
  max_energy_range_uj :: file_state

text \<open>
  The directory \<^verbatim>\<open>RAPL_BASE\<close> itself:
  \<^item> \<open>Absent\<close>: it does not exist;
  \<^item> \<open>Unreachable\<close>: a directory above it may not be searched, and \<^verbatim>\<open>RAPL_BASE.exists()\<close>
    raises \<^verbatim>\<open>PermissionError\<close>;
  \<^item> \<open>NotADirectory\<close>: it exists and is a file, and \<^verbatim>\<open>RAPL_BASE.iterdir()\<close> raises
    \<^verbatim>\<open>NotADirectoryError\<close>;
  \<^item> \<open>Unlistable\<close>: it is a directory that may not be read, and \<^verbatim>\<open>RAPL_BASE.iterdir()\<close>
    raises \<^verbatim>\<open>PermissionError\<close>;
  \<^item> \<open>Listing entries\<close>: it is a directory, and \<^verbatim>\<open>RAPL_BASE.iterdir()\<close> yields the entries
    in this order.
\<close>

datatype base_dir = Absent | Unreachable | NotADirectory | Unlistable | Listing "dir_entry list"

fun base_exists :: "base_dir \<Rightarrow> py_error + bool" where
  "base_exists Absent = Inr False"
| "base_exists Unreachable = Inl PermissionError"
| "base_exists NotADirectory = Inr True"
| "base_exists Unlistable = Inr True"
| "base_exists (Listing entries) = Inr True"

fun base_iterdir :: "base_dir \<Rightarrow> py_error + dir_entry list" where
  "base_iterdir Absent = Inl FileNotFoundError"
| "base_iterdir Unreachable = Inl PermissionError"
| "base_iterdir NotADirectory = Inl NotADirectoryError"
| "base_iterdir Unlistable = Inl PermissionError"
| "base_iterdir (Listing entries) = Inr entries"

text \<open>
  What \<^verbatim>\<open>psutil.Process().cpu_times()\<close> returns: \<^verbatim>\<open>user\<close> and \<^verbatim>\<open>system\<close>, and on platforms
  that account for children also \<^verbatim>\<open>children_user\<close> and \<^verbatim>\<open>children_system\<close>.
\<close>

record pcputimes =
  user :: real
  system :: real
  children :: "(real \<times> real) option"

text \<open>
  \<open>psutil_cpu_times\<close> is the outcome of importing psutil and asking for the CPU times of the
  process: an exception, or the times. \<open>monotonic\<close> is the value of \<^verbatim>\<open>time.monotonic()\<close>.
\<close>

record env =
  rapl_base :: base_dir
  psutil_cpu_times :: "py_error + pcputimes"
  monotonic :: real

subsection \<open>Discovery of the hardware sources\<close>

definition startswith :: "string \<Rightarrow> string \<Rightarrow> bool" where
  "startswith s pre = (take (length pre) s = pre)"

text \<open>
  The condition of the generator in \<^verbatim>\<open>_rapl_packages\<close>. \<^verbatim>\<open>and\<close> evaluates its right operand
  only when the left one holds, so the file is looked for only below an entry with the name
  of a package.
\<close>

definition is_package :: "dir_entry \<Rightarrow> py_error + bool" where
  "is_package p =
     (if startswith (name p) ''intel-rapl:''
         \<and> CHR '':'' \<notin> set (drop (length ''intel-rapl:'') (name p))
      then exists_file (energy_uj p)
      else Inr False)"

text \<open>
  The generator, which \<^verbatim>\<open>sorted\<close> consumes to its end: the first entry whose test raises
  ends it with that exception.
\<close>

fun filter_packages :: "dir_entry list \<Rightarrow> py_error + dir_entry list" where
  "filter_packages [] = Inr []"
| "filter_packages (p # ps) =
     (case is_package p of
        Inl err \<Rightarrow> Inl err
      | Inr keep \<Rightarrow>
          (case filter_packages ps of
             Inl err \<Rightarrow> Inl err
           | Inr rest \<Rightarrow> Inr (if keep then p # rest else rest)))"

text \<open>
  \<^verbatim>\<open>_rapl_packages\<close> has no \<^verbatim>\<open>try\<close>: an exception of \<^verbatim>\<open>exists()\<close> or \<^verbatim>\<open>iterdir()\<close> leaves it.
  \<^verbatim>\<open>sorted\<close> orders the paths; they share their parent, so the order is the one of their
  names, character by character. \<^verbatim>\<open>sorted\<close> is stable, as \<^const>\<open>sort_key\<close> is.
\<close>

definition rapl_packages :: "env \<Rightarrow> py_error + dir_entry list" where
  "rapl_packages e =
     (case base_exists (rapl_base e) of
        Inl err \<Rightarrow> Inl err
      | Inr False \<Rightarrow> Inr []
      | Inr True \<Rightarrow>
          (case base_iterdir (rapl_base e) of
             Inl err \<Rightarrow> Inl err
           | Inr entries \<Rightarrow>
               (case filter_packages entries of
                  Inl err \<Rightarrow> Inl err
                | Inr packages \<Rightarrow> Inr (sort_key name packages))))"

subsection \<open>Reading the counters\<close>

text \<open>
  The loop of \<^verbatim>\<open>_read_rapl_uj\<close>, with the running \<^verbatim>\<open>total\<close> as the argument \<open>tot\<close>. The
  \<^verbatim>\<open>except (OSError, ValueError)\<close> clause returns \<^verbatim>\<open>None\<close>; any other exception would leave
  the function.
\<close>

fun read_rapl_uj_loop :: "real \<Rightarrow> dir_entry list \<Rightarrow> py_error + real option" where
  "read_rapl_uj_loop tot [] = Inr (Some tot)"
| "read_rapl_uj_loop tot (pkg # pkgs) =
     (case read_float (energy_uj pkg) of
        Inr v \<Rightarrow> read_rapl_uj_loop (tot + v) pkgs
      | Inl err \<Rightarrow> if is_OSError err \<or> err = ValueError then Inr None else Inl err)"

definition read_rapl_uj :: "dir_entry list \<Rightarrow> py_error + real option" where
  "read_rapl_uj packages = read_rapl_uj_loop 0 packages"

text \<open>\<^verbatim>\<open>_read_cpu_time\<close>: \<^verbatim>\<open>except Exception\<close> turns every exception into \<^verbatim>\<open>None\<close>.\<close>

definition read_cpu_time :: "env \<Rightarrow> real option" where
  "read_cpu_time e =
     (case psutil_cpu_times e of
        Inl err \<Rightarrow> None
      | Inr cpu \<Rightarrow>
          (let tot = user cpu + system cpu
           in case children cpu of
                Some (children_user, children_system) \<Rightarrow>
                  Some (tot + (children_user + children_system))
              | None \<Rightarrow> Some tot))"

text \<open>
  \<^verbatim>\<open>take_reading\<close> calls \<^verbatim>\<open>_rapl_packages\<close> outside any \<^verbatim>\<open>try\<close>, so an exception of the
  discovery leaves \<^verbatim>\<open>take_reading\<close> too.
\<close>

definition take_reading :: "env \<Rightarrow> py_error + EnergyReading" where
  "take_reading e =
     (case rapl_packages e of
        Inl err \<Rightarrow> Inl err
      | Inr packages \<Rightarrow>
          (case (if packages \<noteq> [] then read_rapl_uj packages else Inr None) of
             Inl err \<Rightarrow> Inl err
           | Inr rapl_uj \<Rightarrow>
               (let cpu_time = read_cpu_time e
                in Inr \<lparr>timestamp = monotonic e,
                        rapl_joules =
                          (case rapl_uj of Some uj \<Rightarrow> Some (uj / 1000000) | None \<Rightarrow> None),
                        cpu_time_seconds = cpu_time\<rparr>)))"

subsection \<open>Formatting\<close>

text \<open>
  The format spec \<^verbatim>\<open>.3f\<close> prints the number rounded to three decimals, a tie going to the
  even neighbour, with a minus sign for a negative number (also when it rounds to zero).
\<close>

definition round_half_even :: "real \<Rightarrow> int" where
  "round_half_even x =
     (let f = \<lfloor>x\<rfloor>; d = x - of_int f
      in if d < 1 / 2 then f
         else if 1 / 2 < d then f + 1
         else if even f then f else f + 1)"

definition digit_char :: "nat \<Rightarrow> char" where
  "digit_char d = char_of (48 + d)"

fun dec_digits :: "nat \<Rightarrow> string" where
  "dec_digits n =
     (if n < 10 then [digit_char n] else dec_digits (n div 10) @ [digit_char (n mod 10)])"

declare dec_digits.simps [simp del]

definition format_3f :: "real \<Rightarrow> string" where
  "format_3f x =
     (let n = nat (round_half_even (\<bar>x\<bar> * 1000))
      in (if x < 0 then ''-'' else '''')
         @ dec_digits (n div 1000) @ ''.''
         @ [digit_char (n div 100 mod 10), digit_char (n div 10 mod 10), digit_char (n mod 10)])"

text \<open>The multiplication sign U+00D7 of the notes, as its two bytes in UTF-8.\<close>

definition times_sign :: string where
  "times_sign = [char_of (195 :: nat), char_of (151 :: nat)]"

subsection \<open>The energy between two readings\<close>

text \<open>
  The generator that \<^verbatim>\<open>sum\<close> consumes in the wrap-around branch, with the running sum as an
  argument (\<^verbatim>\<open>sum\<close> starts at 0): a package without \<^verbatim>\<open>max_energy_range_uj\<close> is skipped, and
  the first \<^verbatim>\<open>exists()\<close> or read that raises ends the sum with that exception.
\<close>

fun sum_max_uj :: "real \<Rightarrow> dir_entry list \<Rightarrow> py_error + real" where
  "sum_max_uj acc [] = Inr acc"
| "sum_max_uj acc (p # ps) =
     (case exists_file (max_energy_range_uj p) of
        Inl err \<Rightarrow> Inl err
      | Inr True \<Rightarrow>
          (case read_float (max_energy_range_uj p) of
             Inl err \<Rightarrow> Inl err
           | Inr v \<Rightarrow> sum_max_uj (acc + v) ps)
      | Inr False \<Rightarrow> sum_max_uj acc ps)"

text \<open>
  The branch \<^verbatim>\<open>if delta < 0\<close>: the value of \<^verbatim>\<open>delta\<close> after it. The call of
  \<^verbatim>\<open>_rapl_packages\<close> stands before the \<^verbatim>\<open>try\<close>, so its exception leaves the function; the
  \<^verbatim>\<open>except (OSError, ValueError)\<close> clause around the sum takes the absolute value.
\<close>

definition wrap_correct :: "env \<Rightarrow> real \<Rightarrow> py_error + real" where
  "wrap_correct e delta =
     (case rapl_packages e of
        Inl err \<Rightarrow> Inl err
      | Inr packages \<Rightarrow>
          (case sum_max_uj 0 packages of
             Inr max_uj \<Rightarrow> Inr (delta + max_uj / 1000000)
           | Inl err \<Rightarrow>
               if is_OSError err \<or> err = ValueError then Inr \<bar>delta\<bar> else Inl err))"

text \<open>
  \<^verbatim>\<open>compute_energy\<close>. \<open>str_float\<close> is Python's conversion of a float to text, which the
  f-strings apply to \<^verbatim>\<open>tdp_watts\<close>; it depends on the binary representation of the float
  and is a parameter here.
\<close>

definition compute_energy ::
  "(real \<Rightarrow> string) \<Rightarrow> env \<Rightarrow> EnergyReading \<Rightarrow> EnergyReading \<Rightarrow> real
     \<Rightarrow> py_error + EnergyMeasurement" where
  "compute_energy str_float e start end tdp_watts =
     (let duration = timestamp end - timestamp start
      in case (rapl_joules start, rapl_joules end) of
           (Some start_rapl, Some end_rapl) \<Rightarrow>
             (let delta = end_rapl - start_rapl
              in case (if delta < 0 then wrap_correct e delta else Inr delta) of
                   Inl err \<Rightarrow> Inl err
                 | Inr delta' \<Rightarrow>
                     Inr \<lparr>duration_seconds = duration, energy_joules = delta',
                          source = ''rapl'', notes = ''''\<rparr>)
         | _ \<Rightarrow>
             (case (cpu_time_seconds start, cpu_time_seconds end) of
                (Some start_cpu, Some end_cpu) \<Rightarrow>
                  (let cpu_delta = end_cpu - start_cpu;
                       estimated = cpu_delta * tdp_watts
                   in Inr \<lparr>duration_seconds = duration, energy_joules = estimated,
                           source = ''cpu_time_estimate'',
                           notes = ''Estimated using cpu_time='' @ format_3f cpu_delta
                             @ ''s '' @ times_sign @ '' tdp='' @ str_float tdp_watts @ ''W''\<rparr>)
              | _ \<Rightarrow>
                  Inr \<lparr>duration_seconds = duration, energy_joules = duration * tdp_watts,
                       source = ''elapsed_time_estimate'',
                       notes = ''Estimated using elapsed='' @ format_3f duration
                         @ ''s '' @ times_sign @ '' tdp='' @ str_float tdp_watts
                         @ ''W (no CPU time available)''\<rparr>))"

subsection \<open>Vocabulary of the properties\<close>

text \<open>
  \<open>is_numeric f\<close>: the file is read and its text is a number. \<open>numeric_value f\<close>: that
  number (0 for a file that has none). \<open>read_fails f\<close>: the file is there or may be, and
  asking for it or reading it raises: \<^verbatim>\<open>PermissionError\<close> or \<^verbatim>\<open>ValueError\<close>.
\<close>

definition is_numeric :: "file_state \<Rightarrow> bool" where
  "is_numeric f = (case f of Numeric v \<Rightarrow> True | _ \<Rightarrow> False)"

definition numeric_value :: "file_state \<Rightarrow> real" where
  "numeric_value f = (case f of Numeric v \<Rightarrow> v | _ \<Rightarrow> 0)"

definition read_fails :: "file_state \<Rightarrow> bool" where
  "read_fails f = (f = Inaccessible \<or> f = Unreadable \<or> f = NonNumeric)"

text \<open>The sum of the counters of a list of packages, in microjoules.\<close>

definition counter_sum_uj :: "dir_entry list \<Rightarrow> real" where
  "counter_sum_uj ps = sum_list (map (\<lambda>p. numeric_value (energy_uj p)) ps)"

text \<open>The sum of the maximum ranges of those packages that have the file, in microjoules.\<close>

definition max_range_sum_uj :: "dir_entry list \<Rightarrow> real" where
  "max_range_sum_uj ps =
     sum_list (map (\<lambda>p. numeric_value (max_energy_range_uj p))
                   (filter (\<lambda>p. max_energy_range_uj p \<noteq> Missing) ps))"

text \<open>
  What the wrap-around branch makes of a negative \<open>delta\<close>, as a function of the packages
  found: the absolute value when asking for or reading a range file raises, and otherwise
  \<open>delta\<close> plus the ranges of the packages that have the file.
\<close>

definition wrap_corrected :: "dir_entry list \<Rightarrow> real \<Rightarrow> real" where
  "wrap_corrected packages delta =
     (if \<exists>p\<in>set packages. read_fails (max_energy_range_uj p) then \<bar>delta\<bar>
      else delta + max_range_sum_uj packages / 1000000)"

text \<open>
  The wrap-around branch as the specification words it: \<open>delta\<close> plus the sum of the
  maximum ranges of the sources when every one of them can be read, and the absolute value
  of \<open>delta\<close> when one cannot.
\<close>

definition wrap_energy_claimed :: "dir_entry list \<Rightarrow> real \<Rightarrow> real" where
  "wrap_energy_claimed packages delta =
     (if \<forall>p\<in>set packages. is_numeric (max_energy_range_uj p)
      then delta + sum_list (map (\<lambda>p. numeric_value (max_energy_range_uj p)) packages) / 1000000
      else \<bar>delta\<bar>)"

text \<open>
  The name of a sub-zone of a package, such as \<^verbatim>\<open>intel-rapl:0:0\<close>: it has a colon after the
  prefix.
\<close>

definition is_subzone_name :: "string \<Rightarrow> bool" where
  "is_subzone_name n =
     (startswith n ''intel-rapl:'' \<and> CHR '':'' \<in> set (drop (length ''intel-rapl:'') n))"

text \<open>
  Two environments have the same directory: it is in the same state in both, or it is
  listed in both, with the same entries in some order, no two entries of a listing sharing
  a name.
\<close>

definition same_directory :: "env \<Rightarrow> env \<Rightarrow> bool" where
  "same_directory e e' =
     (case (rapl_base e, rapl_base e') of
        (Listing xs, Listing ys) \<Rightarrow>
          set xs = set ys \<and> distinct (map name xs) \<and> distinct (map name ys)
      | (b, b') \<Rightarrow> b = b')"

text \<open>The number that a string of decimal digits denotes.\<close>

definition dec_value :: "string \<Rightarrow> nat" where
  "dec_value s = foldl (\<lambda>acc c. 10 * acc + (of_char c - 48)) 0 s"

section \<open>Properties\<close>

subsection \<open>The reads and the two sums\<close>

lemma read_float_error:
  "read_float f = Inl err \<Longrightarrow> is_OSError err \<or> err = ValueError"
  by (cases f) (auto simp: is_OSError_def)

lemma exists_file_error: "exists_file f = Inl err \<Longrightarrow> err = PermissionError"
  by (cases f) auto

lemma read_rapl_uj_loop_numeric:
  "\<forall>p\<in>set ps. is_numeric (energy_uj p) \<Longrightarrow>
     read_rapl_uj_loop tot ps = Inr (Some (tot + counter_sum_uj ps))"
proof (induction ps arbitrary: tot)
  case Nil
  show ?case by (simp add: counter_sum_uj_def)
next
  case (Cons p ps)
  from Cons.prems obtain v where v: "energy_uj p = Numeric v"
    by (cases "energy_uj p") (auto simp: is_numeric_def)
  from Cons.prems have "\<forall>q\<in>set ps. is_numeric (energy_uj q)" by simp
  then have "read_rapl_uj_loop (tot + v) ps = Inr (Some (tot + v + counter_sum_uj ps))"
    by (rule Cons.IH)
  with v show ?case by (simp add: counter_sum_uj_def numeric_value_def)
qed

lemma read_rapl_uj_loop_absent:
  "\<exists>p\<in>set ps. \<not> is_numeric (energy_uj p) \<Longrightarrow> read_rapl_uj_loop tot ps = Inr None"
proof (induction ps arbitrary: tot)
  case Nil
  then show ?case by simp
next
  case (Cons p ps)
  show ?case
  proof (cases "energy_uj p")
    case (Numeric v)
    with Cons.prems have "\<exists>q\<in>set ps. \<not> is_numeric (energy_uj q)"
      by (auto simp: is_numeric_def)
    then have "read_rapl_uj_loop (tot + v) ps = Inr None" by (rule Cons.IH)
    with Numeric show ?thesis by simp
  qed (simp_all add: is_OSError_def)
qed

lemma sum_max_uj_ok:
  "\<forall>p\<in>set ps. \<not> read_fails (max_energy_range_uj p) \<Longrightarrow>
     sum_max_uj acc ps = Inr (acc + max_range_sum_uj ps)"
proof (induction ps arbitrary: acc)
  case Nil
  show ?case by (simp add: max_range_sum_uj_def)
next
  case (Cons p ps)
  from Cons.prems have rest: "\<forall>q\<in>set ps. \<not> read_fails (max_energy_range_uj q)" by simp
  show ?case
  proof (cases "max_energy_range_uj p")
    case Missing
    with Cons.IH [OF rest, of acc] show ?thesis
      by (simp add: max_range_sum_uj_def)
  next
    case (Numeric v)
    with Cons.IH [OF rest, of "acc + v"] show ?thesis
      by (simp add: max_range_sum_uj_def numeric_value_def)
  next
    case Inaccessible
    with Cons.prems show ?thesis by (simp add: read_fails_def)
  next
    case Unreadable
    with Cons.prems show ?thesis by (simp add: read_fails_def)
  next
    case NonNumeric
    with Cons.prems show ?thesis by (simp add: read_fails_def)
  qed
qed

lemma sum_max_uj_raises:
  "\<exists>p\<in>set ps. read_fails (max_energy_range_uj p) \<Longrightarrow>
     sum_max_uj acc ps = Inl PermissionError \<or> sum_max_uj acc ps = Inl ValueError"
proof (induction ps arbitrary: acc)
  case Nil
  then show ?case by simp
next
  case (Cons p ps)
  show ?case
  proof (cases "max_energy_range_uj p")
    case Missing
    with Cons.prems have "\<exists>q\<in>set ps. read_fails (max_energy_range_uj q)"
      by (auto simp: read_fails_def)
    from Cons.IH [OF this, of acc] Missing show ?thesis by simp
  next
    case (Numeric v)
    with Cons.prems have "\<exists>q\<in>set ps. read_fails (max_energy_range_uj q)"
      by (auto simp: read_fails_def)
    from Cons.IH [OF this, of "acc + v"] Numeric show ?thesis by simp
  qed simp_all
qed

lemma wrap_correct_returns:
  assumes "rapl_packages e = Inr packages"
  shows "wrap_correct e delta = Inr (wrap_corrected packages delta)"
proof (cases "\<exists>p\<in>set packages. read_fails (max_energy_range_uj p)")
  case True
  from sum_max_uj_raises [OF True, of 0] True assms show ?thesis
    by (auto simp: wrap_correct_def wrap_corrected_def is_OSError_def)
next
  case False
  then have "\<forall>p\<in>set packages. \<not> read_fails (max_energy_range_uj p)" by simp
  from sum_max_uj_ok [OF this, of 0] False assms show ?thesis
    by (simp add: wrap_correct_def wrap_corrected_def)
qed

lemma wrap_correct_raises:
  "rapl_packages e = Inl err \<Longrightarrow> wrap_correct e delta = Inl err"
  by (simp add: wrap_correct_def)

subsection \<open>The three tiers of \<open>compute_energy\<close>\<close>

lemma compute_energy_rapl:
  assumes "rapl_joules start = Some a" and "rapl_joules end = Some b" and "\<not> b - a < 0"
  shows "compute_energy str_float e start end tdp_watts =
    Inr \<lparr>duration_seconds = timestamp end - timestamp start,
         energy_joules = b - a, source = ''rapl'', notes = ''''\<rparr>"
  using assms by (simp add: compute_energy_def Let_def)

lemma compute_energy_wrap:
  assumes "rapl_joules start = Some a" and "rapl_joules end = Some b" and "b - a < 0"
    and "rapl_packages e = Inr packages"
  shows "compute_energy str_float e start end tdp_watts =
    Inr \<lparr>duration_seconds = timestamp end - timestamp start,
         energy_joules = wrap_corrected packages (b - a),
         source = ''rapl'', notes = ''''\<rparr>"
  using assms by (simp add: compute_energy_def Let_def wrap_correct_returns)

lemma compute_energy_wrap_raises:
  assumes "rapl_joules start = Some a" and "rapl_joules end = Some b" and "b - a < 0"
    and "rapl_packages e = Inl err"
  shows "compute_energy str_float e start end tdp_watts = Inl err"
  using assms by (simp add: compute_energy_def Let_def wrap_correct_raises)

lemma compute_energy_cpu:
  assumes "rapl_joules start = None \<or> rapl_joules end = None"
    and "cpu_time_seconds start = Some a" and "cpu_time_seconds end = Some b"
  shows "compute_energy str_float e start end tdp_watts =
    Inr \<lparr>duration_seconds = timestamp end - timestamp start,
         energy_joules = (b - a) * tdp_watts,
         source = ''cpu_time_estimate'',
         notes = ''Estimated using cpu_time='' @ format_3f (b - a)
                   @ ''s '' @ times_sign @ '' tdp='' @ str_float tdp_watts @ ''W''\<rparr>"
  using assms by (auto simp: compute_energy_def Let_def split: option.splits)

lemma compute_energy_elapsed:
  assumes "rapl_joules start = None \<or> rapl_joules end = None"
    and "cpu_time_seconds start = None \<or> cpu_time_seconds end = None"
  shows "compute_energy str_float e start end tdp_watts =
    Inr \<lparr>duration_seconds = timestamp end - timestamp start,
         energy_joules = (timestamp end - timestamp start) * tdp_watts,
         source = ''elapsed_time_estimate'',
         notes = ''Estimated using elapsed='' @ format_3f (timestamp end - timestamp start)
                   @ ''s '' @ times_sign @ '' tdp='' @ str_float tdp_watts
                   @ ''W (no CPU time available)''\<rparr>"
  using assms by (auto simp: compute_energy_def Let_def split: option.splits)

subsection \<open>The format \<^verbatim>\<open>.3f\<close>\<close>

text \<open>
  \<open>dec_digits\<close> prints a number that reads back as itself, and \<open>format_3f\<close> prints a
  sign, the digits of a whole number, a point and three digits: the thousandths nearest to
  the absolute value of its argument.
\<close>

lemma round_half_even_close: "\<bar>x - of_int (round_half_even x)\<bar> \<le> 1 / 2"
  unfolding round_half_even_def Let_def by (auto; linarith)

lemma round_half_even_nonneg: "0 \<le> x \<Longrightarrow> 0 \<le> round_half_even x"
  unfolding round_half_even_def Let_def by auto

lemma of_char_digit_char: "d < 10 \<Longrightarrow> of_char (digit_char d) = 48 + d"
  by (simp add: digit_char_def)

lemma dec_value_snoc: "dec_value (s @ [c]) = 10 * dec_value s + (of_char c - 48)"
  by (simp add: dec_value_def)

lemma dec_value_dec_digits: "dec_value (dec_digits n) = n"
proof (induction n rule: dec_digits.induct)
  case (1 n)
  show ?case
  proof (cases "n < 10")
    case True
    then show ?thesis
      by (simp add: dec_digits.simps [of n] dec_value_def of_char_digit_char)
  next
    case False
    with "1.IH" have "dec_value (dec_digits (n div 10)) = n div 10" by simp
    with False show ?thesis
      by (simp add: dec_digits.simps [of n] dec_value_snoc of_char_digit_char)
  qed
qed

lemma format_3f_precision:
  "\<exists>n. format_3f x =
         (if x < 0 then ''-'' else '''') @ dec_digits (n div 1000) @ ''.''
         @ map digit_char [n div 100 mod 10, n div 10 mod 10, n mod 10]
       \<and> \<bar>\<bar>x\<bar> - real n / 1000\<bar> \<le> 1 / 2000"
proof -
  let ?r = "round_half_even (\<bar>x\<bar> * 1000)"
  have "0 \<le> ?r" by (rule round_half_even_nonneg) simp
  then have n: "real (nat ?r) = of_int ?r" by simp
  have "\<bar>\<bar>x\<bar> * 1000 - of_int ?r\<bar> \<le> 1 / 2" by (rule round_half_even_close)
  then have "\<bar>\<bar>x\<bar> - real (nat ?r) / 1000\<bar> \<le> 1 / 2000"
    unfolding n by (simp add: abs_le_iff field_simps)
  moreover have "format_3f x =
         (if x < 0 then ''-'' else '''') @ dec_digits (nat ?r div 1000) @ ''.''
         @ map digit_char [nat ?r div 100 mod 10, nat ?r div 10 mod 10, nat ?r mod 10]"
    by (simp add: format_3f_def Let_def)
  ultimately show ?thesis by blast
qed

lemma format_3f_2: "format_3f 2 = ''2.000''"
  by (simp add: format_3f_def round_half_even_def dec_digits.simps digit_char_def
      char_of_def bit_0)

lemma format_3f_4: "format_3f 4 = ''4.000''"
  by (simp add: format_3f_def round_half_even_def dec_digits.simps digit_char_def
      char_of_def bit_0)

lemma format_3f_minus_4: "format_3f (- 4) = ''-4.000''"
  by (simp add: format_3f_def round_half_even_def dec_digits.simps digit_char_def
      char_of_def bit_0)

subsection \<open>The generator of the discovery\<close>

lemma is_package_error: "is_package p = Inl err \<Longrightarrow> err = PermissionError"
  by (auto simp: is_package_def split: if_splits dest: exists_file_error)

lemma filter_packages_returns:
  "\<forall>p\<in>set xs. is_package p \<noteq> Inl PermissionError \<Longrightarrow>
     filter_packages xs = Inr (filter (\<lambda>p. is_package p = Inr True) xs)"
proof (induction xs)
  case Nil
  show ?case by simp
next
  case (Cons p xs)
  from Cons.prems have "is_package p \<noteq> Inl PermissionError" by simp
  then obtain keep where keep: "is_package p = Inr keep"
    by (cases "is_package p") (auto dest: is_package_error)
  from Cons.prems have "\<forall>q\<in>set xs. is_package q \<noteq> Inl PermissionError" by simp
  then have "filter_packages xs = Inr (filter (\<lambda>p. is_package p = Inr True) xs)"
    by (rule Cons.IH)
  with keep show ?case by simp
qed

lemma filter_packages_raises:
  "\<exists>p\<in>set xs. is_package p = Inl PermissionError \<Longrightarrow>
     filter_packages xs = Inl PermissionError"
proof (induction xs)
  case Nil
  then show ?case by simp
next
  case (Cons p xs)
  show ?case
  proof (cases "is_package p")
    case (Inl err)
    then have "err = PermissionError" by (rule is_package_error)
    with Inl show ?thesis by simp
  next
    case (Inr keep)
    with Cons.prems have "\<exists>q\<in>set xs. is_package q = Inl PermissionError" by auto
    then have "filter_packages xs = Inl PermissionError" by (rule Cons.IH)
    with Inr show ?thesis by simp
  qed
qed

lemma sort_key_filter_unique:
  fixes xs ys :: "dir_entry list"
  assumes "set xs = set ys" and dx: "distinct (map name xs)" and dy: "distinct (map name ys)"
  shows "sort_key name (filter P xs) = sort_key name (filter P ys)"
proof -
  let ?a = "sort_key name (filter P xs)" and ?b = "sort_key name (filter P ys)"
  from dx have inj_x: "inj_on name (set xs)" and "distinct xs"
    by (simp_all add: distinct_map)
  from dy have "distinct ys" by (simp add: distinct_map)
  have sets: "set ?a = set ?b" using \<open>set xs = set ys\<close> by simp
  have sub: "set ?a \<subseteq> set xs" by auto
  with inj_x have inj_a: "inj_on name (set ?a)" by (rule inj_on_subset)
  have "distinct (map name ?a)"
    using \<open>distinct xs\<close> inj_a by (simp add: distinct_map)
  moreover have "distinct (map name ?b)"
    using \<open>distinct ys\<close> inj_a sets by (simp add: distinct_map)
  moreover have "set (map name ?a) = set (map name ?b)"
    using sets by (metis set_map)
  ultimately have "map name ?a = map name ?b"
    by (intro sorted_distinct_set_unique) simp_all
  moreover from inj_a sets have "inj_on name (set ?a \<union> set ?b)" by simp
  ultimately show ?thesis by (rule map_inj_on)
qed

lemma rapl_packages_listing:
  "rapl_packages e =
     (case rapl_base e of
        Absent \<Rightarrow> Inr []
      | Unreachable \<Rightarrow> Inl PermissionError
      | NotADirectory \<Rightarrow> Inl NotADirectoryError
      | Unlistable \<Rightarrow> Inl PermissionError
      | Listing entries \<Rightarrow>
          if \<exists>p\<in>set entries. is_package p = Inl PermissionError then Inl PermissionError
          else Inr (sort_key name (filter (\<lambda>p. is_package p = Inr True) entries)))"
proof (cases "rapl_base e")
  case (Listing entries)
  show ?thesis
  proof (cases "\<exists>p\<in>set entries. is_package p = Inl PermissionError")
    case True
    with Listing filter_packages_raises [OF True] show ?thesis
      by (simp add: rapl_packages_def)
  next
    case False
    then have "\<forall>p\<in>set entries. is_package p \<noteq> Inl PermissionError" by simp
    from filter_packages_returns [OF this] Listing False show ?thesis
      by (simp add: rapl_packages_def)
  qed
qed (simp_all add: rapl_packages_def)

lemma rapl_packages_single:
  "rapl_packages \<lparr>rapl_base = Listing [\<lparr>name = ''intel-rapl:0'', energy_uj = Numeric x,
       max_energy_range_uj = f\<rparr>], psutil_cpu_times = c, monotonic = t\<rparr> =
   Inr [\<lparr>name = ''intel-rapl:0'', energy_uj = Numeric x, max_energy_range_uj = f\<rparr>]"
  by (simp add: rapl_packages_def is_package_def startswith_def)

subsection \<open>The claims on \<open>compute_energy\<close>\<close>

text \<open>
  C2. When both readings carry a counter value and the counter did not go down,
  \<open>compute_energy\<close> returns the source \<open>rapl\<close>, the difference of the two counter values as
  the energy, and empty notes.
\<close>

theorem compute_energy_rapl_tier:
  assumes "rapl_joules start = Some a" and "rapl_joules end = Some b" and "0 \<le> b - a"
  shows "compute_energy str_float e start end tdp_watts =
    Inr \<lparr>duration_seconds = timestamp end - timestamp start,
         energy_joules = b - a, source = ''rapl'', notes = ''''\<rparr>"
  using assms by (simp add: compute_energy_rapl)

theorem compute_energy_rapl_tier_witness:
  "rapl_joules \<lparr>timestamp = 0, rapl_joules = Some 100, cpu_time_seconds = Some 1\<rparr> = Some 100
   \<and> rapl_joules \<lparr>timestamp = 5, rapl_joules = Some 200, cpu_time_seconds = Some 3\<rparr> = Some 200
   \<and> (0::real) \<le> 200 - 100
   \<and> compute_energy (\<lambda>x. ''15.0'')
         \<lparr>rapl_base = Absent, psutil_cpu_times = Inl ImportError, monotonic = 0\<rparr>
         \<lparr>timestamp = 0, rapl_joules = Some 100, cpu_time_seconds = Some 1\<rparr>
         \<lparr>timestamp = 5, rapl_joules = Some 200, cpu_time_seconds = Some 3\<rparr> 15 =
       Inr \<lparr>duration_seconds = 5, energy_joules = 100, source = ''rapl'', notes = ''''\<rparr>"
  using compute_energy_rapl_tier [of
      "\<lparr>timestamp = 0, rapl_joules = Some 100, cpu_time_seconds = Some 1\<rparr>" 100
      "\<lparr>timestamp = 5, rapl_joules = Some 200, cpu_time_seconds = Some 3\<rparr>" 200
      "\<lambda>x. ''15.0''"
      "\<lparr>rapl_base = Absent, psutil_cpu_times = Inl ImportError, monotonic = 0\<rparr>" 15]
  by simp

text \<open>
  C4. When a counter value is absent from at least one reading and both readings carry a
  CPU time, \<open>compute_energy\<close> returns the source \<open>cpu_time_estimate\<close>, the energy
  \<open>(end.cpu_time_seconds - start.cpu_time_seconds) * tdp_watts\<close>, and notes that hold the
  CPU-time difference printed with three decimals and \<open>tdp_watts\<close> as Python prints it.
  The printed difference is a sign, the digits of a whole number, a point and three digits,
  and the number it shows is within half a thousandth of the difference.
  The witness is the instance of the claim: CPU times 1.0 and 3.0 and 10 watts give 20
  joules.
\<close>

theorem compute_energy_cpu_time_tier:
  assumes "rapl_joules start = None \<or> rapl_joules end = None"
    and "cpu_time_seconds start = Some a" and "cpu_time_seconds end = Some b"
  shows "compute_energy str_float e start end tdp_watts =
    Inr \<lparr>duration_seconds = timestamp end - timestamp start,
         energy_joules = (b - a) * tdp_watts,
         source = ''cpu_time_estimate'',
         notes = ''Estimated using cpu_time='' @ format_3f (b - a)
                   @ ''s '' @ times_sign @ '' tdp='' @ str_float tdp_watts @ ''W''\<rparr>
    \<and> (\<exists>n. format_3f (b - a) =
              (if b - a < 0 then ''-'' else '''') @ dec_digits (n div 1000) @ ''.''
              @ map digit_char [n div 100 mod 10, n div 10 mod 10, n mod 10]
            \<and> \<bar>\<bar>b - a\<bar> - real n / 1000\<bar> \<le> 1 / 2000)"
  using assms format_3f_precision [of "b - a"] by (simp add: compute_energy_cpu)

theorem compute_energy_cpu_time_tier_witness:
  "(rapl_joules \<lparr>timestamp = 0, rapl_joules = None, cpu_time_seconds = Some 1\<rparr> = None
      \<or> rapl_joules \<lparr>timestamp = 5, rapl_joules = None, cpu_time_seconds = Some 3\<rparr> = None)
   \<and> compute_energy (\<lambda>x. ''10.0'')
         \<lparr>rapl_base = Absent, psutil_cpu_times = Inl ImportError, monotonic = 0\<rparr>
         \<lparr>timestamp = 0, rapl_joules = None, cpu_time_seconds = Some 1\<rparr>
         \<lparr>timestamp = 5, rapl_joules = None, cpu_time_seconds = Some 3\<rparr> 10 =
       Inr \<lparr>duration_seconds = 5, energy_joules = 20, source = ''cpu_time_estimate'',
            notes = ''Estimated using cpu_time=2.000s '' @ times_sign @ '' tdp=10.0W''\<rparr>"
  using compute_energy_cpu_time_tier [of
      "\<lparr>timestamp = 0, rapl_joules = None, cpu_time_seconds = Some 1\<rparr>"
      "\<lparr>timestamp = 5, rapl_joules = None, cpu_time_seconds = Some 3\<rparr>" 1 3
      "\<lambda>x. ''10.0''"
      "\<lparr>rapl_base = Absent, psutil_cpu_times = Inl ImportError, monotonic = 0\<rparr>" 10]
  by (simp add: format_3f_2)

text \<open>
  C5. When the two readings have neither a pair of counter values nor a pair of CPU times,
  \<open>compute_energy\<close> returns the source \<open>elapsed_time_estimate\<close> and the energy
  \<open>(end.timestamp - start.timestamp) * tdp_watts\<close>. The witness is the instance of the
  claim: 4 seconds and 15 watts give 60 joules.
\<close>

theorem compute_energy_elapsed_time_tier:
  assumes "\<not> (\<exists>a b. rapl_joules start = Some a \<and> rapl_joules end = Some b)"
    and "\<not> (\<exists>a b. cpu_time_seconds start = Some a \<and> cpu_time_seconds end = Some b)"
  shows "\<exists>m. compute_energy str_float e start end tdp_watts = Inr m
           \<and> source m = ''elapsed_time_estimate''
           \<and> energy_joules m = (timestamp end - timestamp start) * tdp_watts"
proof -
  from assms have "rapl_joules start = None \<or> rapl_joules end = None"
    and "cpu_time_seconds start = None \<or> cpu_time_seconds end = None"
    by auto
  then show ?thesis by (simp add: compute_energy_elapsed)
qed

theorem compute_energy_elapsed_time_tier_witness:
  "compute_energy (\<lambda>x. ''15.0'')
         \<lparr>rapl_base = Absent, psutil_cpu_times = Inl ImportError, monotonic = 0\<rparr>
         \<lparr>timestamp = 0, rapl_joules = None, cpu_time_seconds = None\<rparr>
         \<lparr>timestamp = 4, rapl_joules = None, cpu_time_seconds = None\<rparr> 15 =
       Inr \<lparr>duration_seconds = 4, energy_joules = 60, source = ''elapsed_time_estimate'',
            notes = ''Estimated using elapsed=4.000s '' @ times_sign
                      @ '' tdp=15.0W (no CPU time available)''\<rparr>"
  using compute_energy_elapsed_time_tier [of
      "\<lparr>timestamp = 0, rapl_joules = None, cpu_time_seconds = None\<rparr>"
      "\<lparr>timestamp = 4, rapl_joules = None, cpu_time_seconds = None\<rparr>"
      "\<lambda>x. ''15.0''"
      "\<lparr>rapl_base = Absent, psutil_cpu_times = Inl ImportError, monotonic = 0\<rparr>" 15]
  by (auto simp: compute_energy_def Let_def format_3f_4)

text \<open>
  When \<open>compute_energy\<close> raises: only where both readings carry a counter value, the
  counter went down and listing the packages again raises. The timestamps play no part.
\<close>

lemma compute_energy_raises_iff:
  "(compute_energy str_float e start end tdp_watts = Inl err) =
     (\<exists>a b. rapl_joules start = Some a \<and> rapl_joules end = Some b \<and> b < a
            \<and> rapl_packages e = Inl err)"
proof (cases "rapl_joules start = None \<or> rapl_joules end = None")
  case True
  then show ?thesis
    by (cases "cpu_time_seconds start"; cases "cpu_time_seconds end")
       (auto simp: compute_energy_cpu compute_energy_elapsed)
next
  case False
  then obtain a b where ab: "rapl_joules start = Some a" "rapl_joules end = Some b"
    by auto
  show ?thesis
  proof (cases "b - a < 0")
    case False
    with ab show ?thesis by (simp add: compute_energy_rapl)
  next
    case True
    show ?thesis
    proof (cases "rapl_packages e")
      case (Inl err')
      with ab True show ?thesis by (auto simp: compute_energy_wrap_raises)
    next
      case (Inr packages)
      with ab True show ?thesis by (simp add: compute_energy_wrap)
    qed
  qed
qed

lemma returned_duration:
  assumes "compute_energy str_float e start end tdp_watts = Inr m"
  shows "duration_seconds m = timestamp end - timestamp start"
proof (cases "rapl_joules start = None \<or> rapl_joules end = None")
  case True
  with assms show ?thesis
    by (cases "cpu_time_seconds start"; cases "cpu_time_seconds end")
       (auto simp: compute_energy_cpu compute_energy_elapsed)
next
  case False
  then obtain a b where ab: "rapl_joules start = Some a" "rapl_joules end = Some b"
    by auto
  show ?thesis
  proof (cases "b - a < 0")
    case False
    with ab assms show ?thesis by (auto simp: compute_energy_rapl)
  next
    case True
    show ?thesis
    proof (cases "rapl_packages e")
      case (Inl err)
      with ab True assms show ?thesis by (simp add: compute_energy_wrap_raises)
    next
      case (Inr packages)
      with ab True assms show ?thesis by (auto simp: compute_energy_wrap)
    qed
  qed
qed

text \<open>
  C6. The measurement that \<open>compute_energy\<close> returns has the duration
  \<open>end.timestamp - start.timestamp\<close>, in every tier and also when the difference is
  negative. \<open>compute_energy\<close> returns a measurement unless both readings carry a counter
  value, the counter went down and listing the packages again raises; whether it raises
  does not depend on the timestamps, so no difference of timestamps makes it raise.
\<close>

theorem compute_energy_duration:
  "((\<exists>m. compute_energy str_float e start end tdp_watts = Inr m
          \<and> duration_seconds m = timestamp end - timestamp start)
      \<or> (\<exists>a b err. rapl_joules start = Some a \<and> rapl_joules end = Some b \<and> b < a
            \<and> rapl_packages e = Inl err
            \<and> compute_energy str_float e start end tdp_watts = Inl err))
   \<and> isl (compute_energy str_float e (start\<lparr>timestamp := t\<rparr>) (end\<lparr>timestamp := t'\<rparr>) tdp_watts)
       = isl (compute_energy str_float e start end tdp_watts)"
proof
  show "(\<exists>m. compute_energy str_float e start end tdp_watts = Inr m
          \<and> duration_seconds m = timestamp end - timestamp start)
      \<or> (\<exists>a b err. rapl_joules start = Some a \<and> rapl_joules end = Some b \<and> b < a
            \<and> rapl_packages e = Inl err
            \<and> compute_energy str_float e start end tdp_watts = Inl err)"
  proof (cases "compute_energy str_float e start end tdp_watts")
    case (Inr m)
    then show ?thesis by (simp add: returned_duration)
  next
    case (Inl err)
    with compute_energy_raises_iff [of str_float e start "end" tdp_watts err]
    show ?thesis by auto
  qed
next
  have "isl (compute_energy str_float e s f tdp_watts) =
      (\<exists>a b err. rapl_joules s = Some a \<and> rapl_joules f = Some b \<and> b < a
         \<and> rapl_packages e = Inl err)" for s f
  proof
    assume "isl (compute_energy str_float e s f tdp_watts)"
    then obtain err where "compute_energy str_float e s f tdp_watts = Inl err"
      by (auto simp: isl_def)
    then show "\<exists>a b err. rapl_joules s = Some a \<and> rapl_joules f = Some b \<and> b < a
         \<and> rapl_packages e = Inl err"
      unfolding compute_energy_raises_iff by blast
  next
    assume "\<exists>a b err. rapl_joules s = Some a \<and> rapl_joules f = Some b \<and> b < a
         \<and> rapl_packages e = Inl err"
    then obtain a b err where "rapl_joules s = Some a \<and> rapl_joules f = Some b \<and> b < a
         \<and> rapl_packages e = Inl err"
      by blast
    then have "compute_energy str_float e s f tdp_watts = Inl err"
      unfolding compute_energy_raises_iff by blast
    then show "isl (compute_energy str_float e s f tdp_watts)" by simp
  qed
  then show "isl (compute_energy str_float e (start\<lparr>timestamp := t\<rparr>)
        (end\<lparr>timestamp := t'\<rparr>) tdp_watts)
      = isl (compute_energy str_float e start end tdp_watts)"
    by simp
qed

theorem compute_energy_duration_witness:
  "compute_energy (\<lambda>x. ''15.0'')
         \<lparr>rapl_base = Unlistable, psutil_cpu_times = Inl ImportError, monotonic = 0\<rparr>
         \<lparr>timestamp = 4, rapl_joules = None, cpu_time_seconds = None\<rparr>
         \<lparr>timestamp = 0, rapl_joules = None, cpu_time_seconds = None\<rparr> 15 =
       Inr \<lparr>duration_seconds = - 4, energy_joules = - 60, source = ''elapsed_time_estimate'',
            notes = ''Estimated using elapsed=-4.000s '' @ times_sign
                      @ '' tdp=15.0W (no CPU time available)''\<rparr>"
  using compute_energy_duration [of "\<lambda>x. ''15.0''"
      "\<lparr>rapl_base = Unlistable, psutil_cpu_times = Inl ImportError, monotonic = 0\<rparr>"
      "\<lparr>timestamp = 4, rapl_joules = None, cpu_time_seconds = None\<rparr>"
      "\<lparr>timestamp = 0, rapl_joules = None, cpu_time_seconds = None\<rparr>" 15]
  by (auto simp: compute_energy_def Let_def format_3f_minus_4)

text \<open>
  C10. Unless both readings carry a counter value and the counter went down, the result of
  \<open>compute_energy\<close> is the same in every environment: it is a function of the two
  readings and \<open>tdp_watts\<close> alone (and of Python's conversion of a float to text).
\<close>

theorem compute_energy_deterministic:
  assumes "\<not> (\<exists>a b. rapl_joules start = Some a \<and> rapl_joules end = Some b \<and> b < a)"
  shows "compute_energy str_float e1 start end tdp_watts =
         compute_energy str_float e2 start end tdp_watts"
proof (cases "rapl_joules start")
  case None
  then show ?thesis
    by (cases "cpu_time_seconds start"; cases "cpu_time_seconds end")
       (simp_all add: compute_energy_cpu compute_energy_elapsed)
next
  case a: (Some a)
  show ?thesis
  proof (cases "rapl_joules end")
    case None
    then show ?thesis
      by (cases "cpu_time_seconds start"; cases "cpu_time_seconds end")
         (simp_all add: compute_energy_cpu compute_energy_elapsed)
  next
    case (Some b)
    with a assms have "\<not> b - a < 0" by simp
    with a Some show ?thesis by (simp add: compute_energy_rapl)
  qed
qed

theorem compute_energy_deterministic_witness:
  "\<not> (\<exists>a b. rapl_joules \<lparr>timestamp = 0, rapl_joules = Some 100, cpu_time_seconds = Some 1\<rparr> = Some a
        \<and> rapl_joules \<lparr>timestamp = 5, rapl_joules = Some 200, cpu_time_seconds = Some 3\<rparr> = Some b
        \<and> b < a)
   \<and> compute_energy (\<lambda>x. ''15.0'')
        \<lparr>rapl_base = Absent, psutil_cpu_times = Inl ImportError, monotonic = 0\<rparr>
        \<lparr>timestamp = 0, rapl_joules = Some 100, cpu_time_seconds = Some 1\<rparr>
        \<lparr>timestamp = 5, rapl_joules = Some 200, cpu_time_seconds = Some 3\<rparr> 15 =
      compute_energy (\<lambda>x. ''15.0'')
        \<lparr>rapl_base = Listing [\<lparr>name = ''intel-rapl:0'', energy_uj = Numeric 100000,
                             max_energy_range_uj = Numeric 262143328850\<rparr>],
         psutil_cpu_times = Inr \<lparr>user = 2, system = 1, children = None\<rparr>, monotonic = 7\<rparr>
        \<lparr>timestamp = 0, rapl_joules = Some 100, cpu_time_seconds = Some 1\<rparr>
        \<lparr>timestamp = 5, rapl_joules = Some 200, cpu_time_seconds = Some 3\<rparr> 15"
  using compute_energy_deterministic [of
      "\<lparr>timestamp = 0, rapl_joules = Some 100, cpu_time_seconds = Some 1\<rparr>"
      "\<lparr>timestamp = 5, rapl_joules = Some 200, cpu_time_seconds = Some 3\<rparr>"
      "\<lambda>x. ''15.0''"
      "\<lparr>rapl_base = Absent, psutil_cpu_times = Inl ImportError, monotonic = 0\<rparr>" 15
      "\<lparr>rapl_base = Listing [\<lparr>name = ''intel-rapl:0'', energy_uj = Numeric 100000,
                             max_energy_range_uj = Numeric 262143328850\<rparr>],
         psutil_cpu_times = Inr \<lparr>user = 2, system = 1, children = None\<rparr>, monotonic = 7\<rparr>"]
  by simp

subsection \<open>The wrap-around branch\<close>

text \<open>
  Where listing the packages again returns and every package found has the range file, the
  branch does what the specification says: \<open>delta\<close> plus the sum of the ranges when all
  of them are read, and the absolute value of \<open>delta\<close> when one is not.
\<close>

lemma wrap_energy_claimed_agrees:
  assumes "\<forall>p\<in>set packages. max_energy_range_uj p \<noteq> Missing"
  shows "wrap_corrected packages delta = wrap_energy_claimed packages delta"
proof -
  from assms have "filter (\<lambda>p. max_energy_range_uj p \<noteq> Missing) packages = packages"
    by simp
  moreover have "read_fails f = (\<not> is_numeric f)" if "f \<noteq> Missing" for f
    using that by (cases f) (simp_all add: read_fails_def is_numeric_def)
  with assms have
    "(\<exists>p\<in>set packages. read_fails (max_energy_range_uj p))
       = (\<not> (\<forall>p\<in>set packages. is_numeric (max_energy_range_uj p)))"
    by simp
  ultimately show ?thesis
    by (simp add: wrap_corrected_def wrap_energy_claimed_def max_range_sum_uj_def)
qed

lemma compute_energy_wrap_as_claimed:
  assumes "rapl_joules start = Some a" and "rapl_joules end = Some b" and "b - a < 0"
    and "rapl_packages e = Inr packages"
    and "\<forall>p\<in>set packages. max_energy_range_uj p \<noteq> Missing"
  shows "compute_energy str_float e start end tdp_watts =
    Inr \<lparr>duration_seconds = timestamp end - timestamp start,
         energy_joules = wrap_energy_claimed packages (b - a),
         source = ''rapl'', notes = ''''\<rparr>"
  using assms by (simp add: compute_energy_wrap wrap_energy_claimed_agrees)

text \<open>
  C3. The code at an input where it leaves the claim: the counter went down (5 J, then
  1 J) and the one package found has no \<^verbatim>\<open>max_energy_range_uj\<close>, so its range cannot be
  read. The claim has the energy \<open>abs(delta) = 4\<close> there; the code skips the package, adds
  nothing and returns the negative difference \<open>-4\<close> under the source \<open>rapl\<close>.
\<close>

theorem compute_energy_wrap_missing_range:
  "compute_energy (\<lambda>x. ''15.0'')
     \<lparr>rapl_base = Listing [\<lparr>name = ''intel-rapl:0'', energy_uj = Numeric 100000,
                          max_energy_range_uj = Missing\<rparr>],
      psutil_cpu_times = Inl ImportError, monotonic = 5\<rparr>
     \<lparr>timestamp = 0, rapl_joules = Some 5, cpu_time_seconds = None\<rparr>
     \<lparr>timestamp = 5, rapl_joules = Some 1, cpu_time_seconds = None\<rparr> 15 =
   Inr \<lparr>duration_seconds = 5, energy_joules = - 4, source = ''rapl'', notes = ''''\<rparr>"
  by (simp add: compute_energy_def Let_def wrap_correct_def rapl_packages_single)

text \<open>The energy that the specification has at this input.\<close>

lemma wrap_energy_claimed_missing_range:
  "wrap_energy_claimed
     [\<lparr>name = ''intel-rapl:0'', energy_uj = Numeric 100000,
        max_energy_range_uj = Missing\<rparr>] (1 - 5) = 4"
  by (simp add: wrap_energy_claimed_def is_numeric_def)

text \<open>
  A second such input: the counter went down and the directory cannot be listed when the
  packages are listed again. That call stands before the \<^verbatim>\<open>try\<close>, so \<open>compute_energy\<close>
  raises where the claim has \<open>abs(delta)\<close>.
\<close>

lemma compute_energy_wrap_unlistable:
  "compute_energy (\<lambda>x. ''15.0'')
     \<lparr>rapl_base = Unlistable, psutil_cpu_times = Inl ImportError, monotonic = 5\<rparr>
     \<lparr>timestamp = 0, rapl_joules = Some 5, cpu_time_seconds = None\<rparr>
     \<lparr>timestamp = 5, rapl_joules = Some 1, cpu_time_seconds = None\<rparr> 15 =
   Inl PermissionError"
  by (simp add: compute_energy_def Let_def wrap_correct_def rapl_packages_def)

text \<open>
  The test of the wrap-around: one package with the range 262143328850, the counter at
  262143 J and then at 10 J.
\<close>

lemma compute_energy_wrap_test:
  "compute_energy (\<lambda>x. ''15.0'')
     \<lparr>rapl_base = Listing [\<lparr>name = ''intel-rapl:0'', energy_uj = Numeric 100000,
                          max_energy_range_uj = Numeric 262143328850\<rparr>],
      psutil_cpu_times = Inl ImportError, monotonic = 5\<rparr>
     \<lparr>timestamp = 0, rapl_joules = Some 262143, cpu_time_seconds = None\<rparr>
     \<lparr>timestamp = 5, rapl_joules = Some 10, cpu_time_seconds = None\<rparr> 15 =
   Inr \<lparr>duration_seconds = 5, energy_joules = 206577 / 20000, source = ''rapl'', notes = ''''\<rparr>"
  by (simp add: compute_energy_def Let_def wrap_correct_def rapl_packages_single)

subsection \<open>The sign of the energy\<close>

text \<open>
  C1, as stated, fails: with no counter and no CPU time, 4 seconds and \<open>tdp_watts = -1\<close> the
  energy is \<open>-4\<close>.
\<close>

theorem compute_energy_negative_counterexample:
  "compute_energy (\<lambda>x. ''-1.0'')
     \<lparr>rapl_base = Absent, psutil_cpu_times = Inl ImportError, monotonic = 0\<rparr>
     \<lparr>timestamp = 0, rapl_joules = None, cpu_time_seconds = None\<rparr>
     \<lparr>timestamp = 4, rapl_joules = None, cpu_time_seconds = None\<rparr> (- 1) =
   Inr \<lparr>duration_seconds = 4, energy_joules = - 4, source = ''elapsed_time_estimate'',
        notes = ''Estimated using elapsed=4.000s '' @ times_sign
                  @ '' tdp=-1.0W (no CPU time available)''\<rparr>
   \<and> \<not> (0::real) \<le> - 4"
  by (simp add: compute_energy_def Let_def format_3f_4)

text \<open>
  C1, amended. \<open>compute_energy\<close> returns a measurement whose energy is not negative when
  the inputs of the tier that is used are in order:
  \<^item> in the counter tier, the counter did not go down; or it went down, listing the
    packages again returns, and either asking for or reading a range file raises (the code
    then takes the absolute value), or every package found has a range that is read and
    the counter went down by at most the sum of the ranges in joules (as it does when both
    counter values lie in the summed range);
  \<^item> in the CPU-time tier, \<open>tdp_watts\<close> is not negative and the CPU time did not go down;
  \<^item> in the elapsed-time tier, \<open>tdp_watts\<close> is not negative and the timestamp did not go
    down.
\<close>

theorem compute_energy_nonneg:
  assumes "case (rapl_joules start, rapl_joules end) of
             (Some a, Some b) \<Rightarrow>
               a \<le> b
               \<or> (\<exists>packages. rapl_packages e = Inr packages
                    \<and> ((\<exists>p\<in>set packages. read_fails (max_energy_range_uj p))
                       \<or> ((\<forall>p\<in>set packages. is_numeric (max_energy_range_uj p))
                          \<and> a - b \<le> max_range_sum_uj packages / 1000000)))
           | _ \<Rightarrow>
               0 \<le> tdp_watts
               \<and> (case (cpu_time_seconds start, cpu_time_seconds end) of
                    (Some a, Some b) \<Rightarrow> a \<le> b
                  | _ \<Rightarrow> timestamp start \<le> timestamp end)"
  shows "\<exists>m. compute_energy str_float e start end tdp_watts = Inr m \<and> 0 \<le> energy_joules m"
proof (cases "rapl_joules start = None \<or> rapl_joules end = None")
  case absent: True
  with assms have tdp: "0 \<le> tdp_watts"
    and rest: "case (cpu_time_seconds start, cpu_time_seconds end) of
                 (Some a, Some b) \<Rightarrow> a \<le> b
               | _ \<Rightarrow> timestamp start \<le> timestamp end"
    by (auto split: option.splits)
  show ?thesis
  proof (cases "cpu_time_seconds start = None \<or> cpu_time_seconds end = None")
    case True
    with rest have "timestamp start \<le> timestamp end" by (auto split: option.splits)
    with tdp have "0 \<le> (timestamp end - timestamp start) * tdp_watts" by simp
    with absent True show ?thesis by (simp add: compute_energy_elapsed)
  next
    case False
    then obtain a b where ab: "cpu_time_seconds start = Some a" "cpu_time_seconds end = Some b"
      by auto
    with rest have "a \<le> b" by simp
    with tdp have "0 \<le> (b - a) * tdp_watts" by simp
    with absent ab show ?thesis by (simp add: compute_energy_cpu)
  qed
next
  case False
  then obtain a b where ab: "rapl_joules start = Some a" "rapl_joules end = Some b"
    by auto
  show ?thesis
  proof (cases "b - a < 0")
    case False
    with ab show ?thesis by (simp add: compute_energy_rapl)
  next
    case True
    with ab assms obtain packages where packages: "rapl_packages e = Inr packages"
      and range: "(\<exists>p\<in>set packages. read_fails (max_energy_range_uj p))
                  \<or> ((\<forall>p\<in>set packages. is_numeric (max_energy_range_uj p))
                     \<and> a - b \<le> max_range_sum_uj packages / 1000000)"
      by auto
    have "0 \<le> wrap_corrected packages (b - a)"
    proof (cases "\<exists>p\<in>set packages. read_fails (max_energy_range_uj p)")
      case True
      then show ?thesis by (simp add: wrap_corrected_def)
    next
      case False
      with range have "a - b \<le> max_range_sum_uj packages / 1000000" by auto
      with False show ?thesis by (simp add: wrap_corrected_def)
    qed
    with ab True packages show ?thesis by (simp add: compute_energy_wrap)
  qed
qed

theorem compute_energy_nonneg_witness:
  "(case (rapl_joules \<lparr>timestamp = 0, rapl_joules = Some 262143, cpu_time_seconds = None\<rparr>,
          rapl_joules \<lparr>timestamp = 5, rapl_joules = Some 10, cpu_time_seconds = None\<rparr>) of
      (Some a, Some b) \<Rightarrow>
        a \<le> b
        \<or> (\<exists>packages. rapl_packages
              \<lparr>rapl_base = Listing [\<lparr>name = ''intel-rapl:0'', energy_uj = Numeric 100000,
                                   max_energy_range_uj = Numeric 262143328850\<rparr>],
               psutil_cpu_times = Inl ImportError, monotonic = 5\<rparr> = Inr packages
             \<and> ((\<exists>p\<in>set packages. read_fails (max_energy_range_uj p))
                \<or> ((\<forall>p\<in>set packages. is_numeric (max_energy_range_uj p))
                   \<and> a - b \<le> max_range_sum_uj packages / 1000000)))
    | _ \<Rightarrow>
        (0::real) \<le> 15
        \<and> (case (cpu_time_seconds \<lparr>timestamp = 0, rapl_joules = Some 262143, cpu_time_seconds = None\<rparr>,
                  cpu_time_seconds \<lparr>timestamp = 5, rapl_joules = Some 10, cpu_time_seconds = None\<rparr>) of
             (Some a, Some b) \<Rightarrow> a \<le> b
           | _ \<Rightarrow> timestamp \<lparr>timestamp = 0, rapl_joules = Some 262143, cpu_time_seconds = None\<rparr>
                   \<le> timestamp \<lparr>timestamp = 5, rapl_joules = Some 10, cpu_time_seconds = None\<rparr>))
   \<and> (\<exists>m. compute_energy (\<lambda>x. ''15.0'')
         \<lparr>rapl_base = Listing [\<lparr>name = ''intel-rapl:0'', energy_uj = Numeric 100000,
                              max_energy_range_uj = Numeric 262143328850\<rparr>],
          psutil_cpu_times = Inl ImportError, monotonic = 5\<rparr>
         \<lparr>timestamp = 0, rapl_joules = Some 262143, cpu_time_seconds = None\<rparr>
         \<lparr>timestamp = 5, rapl_joules = Some 10, cpu_time_seconds = None\<rparr> 15 = Inr m
         \<and> 0 \<le> energy_joules m)"
  (is "?hyp \<and> ?concl")
proof -
  have h: ?hyp
    by (simp add: rapl_packages_single read_fails_def is_numeric_def max_range_sum_uj_def
        numeric_value_def)
  from compute_energy_nonneg [OF h, of "\<lambda>x. ''15.0''"] have ?concl .
  with h show ?thesis by (rule conjI)
qed

subsection \<open>Discovery and reading\<close>

text \<open>
  C8. Every package in the list that \<open>rapl_packages\<close> returns is an entry of the
  directory whose name is \<^verbatim>\<open>intel-rapl:\<close> followed by text without a colon, so never the
  name of a sub-zone, and that has the counter file; the list is sorted by name; and the
  outcome is the same for every order in which the directory yields its entries.
\<close>

theorem rapl_packages_top_level_sorted:
  "(\<forall>packages. rapl_packages e = Inr packages \<longrightarrow>
      (\<forall>p\<in>set packages.
          (\<exists>entries. rapl_base e = Listing entries \<and> p \<in> set entries)
          \<and> startswith (name p) ''intel-rapl:'' \<and> \<not> is_subzone_name (name p)
          \<and> exists_file (energy_uj p) = Inr True)
      \<and> sorted (map name packages))
   \<and> (same_directory e e' \<longrightarrow> rapl_packages e' = rapl_packages e)"
proof (intro conjI allI impI ballI)
  fix packages p
  assume "rapl_packages e = Inr packages" and "p \<in> set packages"
  then have "\<exists>entries. rapl_base e = Listing entries \<and> p \<in> set entries
      \<and> is_package p = Inr True"
    by (cases "rapl_base e") (auto simp: rapl_packages_listing split: if_splits)
  then show "\<exists>entries. rapl_base e = Listing entries \<and> p \<in> set entries"
    and "startswith (name p) ''intel-rapl:''" and "\<not> is_subzone_name (name p)"
    and "exists_file (energy_uj p) = Inr True"
    by (auto simp: is_package_def is_subzone_name_def split: if_splits)
next
  fix packages
  assume "rapl_packages e = Inr packages"
  then show "sorted (map name packages)"
    by (cases "rapl_base e") (auto simp: rapl_packages_listing split: if_splits)
next
  assume same: "same_directory e e'"
  show "rapl_packages e' = rapl_packages e"
  proof (cases "\<exists>xs ys. rapl_base e = Listing xs \<and> rapl_base e' = Listing ys")
    case True
    then obtain xs ys where xs: "rapl_base e = Listing xs" and ys: "rapl_base e' = Listing ys"
      by blast
    with same have sets: "set xs = set ys"
      and dx: "distinct (map name xs)" and dy: "distinct (map name ys)"
      by (simp_all add: same_directory_def)
    from sets dx dy have
      "sort_key name (filter (\<lambda>p. is_package p = Inr True) xs)
         = sort_key name (filter (\<lambda>p. is_package p = Inr True) ys)"
      by (rule sort_key_filter_unique)
    with xs ys sets show ?thesis by (simp add: rapl_packages_listing)
  next
    case False
    with same have "rapl_base e = rapl_base e'"
      by (auto simp: same_directory_def split: base_dir.splits)
    then show ?thesis by (simp add: rapl_packages_listing)
  qed
qed

theorem rapl_packages_top_level_sorted_witness:
  "same_directory
     \<lparr>rapl_base = Listing [
        \<lparr>name = ''intel-rapl:1'', energy_uj = Numeric 2000000, max_energy_range_uj = Missing\<rparr>,
        \<lparr>name = ''intel-rapl:0:0'', energy_uj = Numeric 200, max_energy_range_uj = Missing\<rparr>,
        \<lparr>name = ''intel-rapl:0'', energy_uj = Numeric 500, max_energy_range_uj = Missing\<rparr>],
      psutil_cpu_times = Inl ImportError, monotonic = 0\<rparr>
     \<lparr>rapl_base = Listing [
        \<lparr>name = ''intel-rapl:0'', energy_uj = Numeric 500, max_energy_range_uj = Missing\<rparr>,
        \<lparr>name = ''intel-rapl:0:0'', energy_uj = Numeric 200, max_energy_range_uj = Missing\<rparr>,
        \<lparr>name = ''intel-rapl:1'', energy_uj = Numeric 2000000, max_energy_range_uj = Missing\<rparr>],
      psutil_cpu_times = Inl ImportError, monotonic = 0\<rparr>
   \<and> rapl_packages
     \<lparr>rapl_base = Listing [
        \<lparr>name = ''intel-rapl:0'', energy_uj = Numeric 500, max_energy_range_uj = Missing\<rparr>,
        \<lparr>name = ''intel-rapl:0:0'', energy_uj = Numeric 200, max_energy_range_uj = Missing\<rparr>,
        \<lparr>name = ''intel-rapl:1'', energy_uj = Numeric 2000000, max_energy_range_uj = Missing\<rparr>],
      psutil_cpu_times = Inl ImportError, monotonic = 0\<rparr> =
     Inr [\<lparr>name = ''intel-rapl:0'', energy_uj = Numeric 500, max_energy_range_uj = Missing\<rparr>,
      \<lparr>name = ''intel-rapl:1'', energy_uj = Numeric 2000000, max_energy_range_uj = Missing\<rparr>]"
  (is "same_directory ?e ?e' \<and> rapl_packages ?e' = ?ps")
proof -
  have h: "same_directory ?e ?e'"
    by (simp add: same_directory_def insert_commute)
  have "rapl_packages ?e = ?ps"
    by (simp add: rapl_packages_def is_package_def startswith_def)
  with rapl_packages_top_level_sorted [of ?e ?e'] h show ?thesis by simp
qed

text \<open>
  C7. When the counter file of one package of the list is missing, unreadable or no number,
  \<open>read_rapl_uj\<close> returns \<^verbatim>\<open>None\<close>, not a sum over the other packages; and when the list is
  the one that discovery returns, the reading that \<open>take_reading\<close> returns has no
  \<open>rapl_joules\<close>.
\<close>

theorem unreadable_counter_makes_reading_absent:
  assumes "p \<in> set packages" and "\<not> is_numeric (energy_uj p)"
  shows "read_rapl_uj packages = Inr None
         \<and> (rapl_packages e = Inr packages \<longrightarrow>
              (\<exists>r. take_reading e = Inr r \<and> rapl_joules r = None))"
proof -
  from assms have "\<exists>p\<in>set packages. \<not> is_numeric (energy_uj p)" by blast
  then have "read_rapl_uj packages = Inr None"
    unfolding read_rapl_uj_def by (rule read_rapl_uj_loop_absent)
  then show ?thesis by (simp add: take_reading_def Let_def)
qed

theorem unreadable_counter_makes_reading_absent_witness:
  "\<lparr>name = ''intel-rapl:1'', energy_uj = Unreadable, max_energy_range_uj = Missing\<rparr>
     \<in> set [\<lparr>name = ''intel-rapl:0'', energy_uj = Numeric 1000000, max_energy_range_uj = Missing\<rparr>,
             \<lparr>name = ''intel-rapl:1'', energy_uj = Unreadable, max_energy_range_uj = Missing\<rparr>]
   \<and> \<not> is_numeric (energy_uj
          \<lparr>name = ''intel-rapl:1'', energy_uj = Unreadable, max_energy_range_uj = Missing\<rparr>)
   \<and> read_rapl_uj
        [\<lparr>name = ''intel-rapl:0'', energy_uj = Numeric 1000000, max_energy_range_uj = Missing\<rparr>,
         \<lparr>name = ''intel-rapl:1'', energy_uj = Unreadable, max_energy_range_uj = Missing\<rparr>]
       = Inr None
   \<and> (\<exists>r. take_reading
          \<lparr>rapl_base = Listing
             [\<lparr>name = ''intel-rapl:0'', energy_uj = Numeric 1000000, max_energy_range_uj = Missing\<rparr>,
              \<lparr>name = ''intel-rapl:1'', energy_uj = Unreadable, max_energy_range_uj = Missing\<rparr>],
           psutil_cpu_times = Inr \<lparr>user = 1, system = 1, children = None\<rparr>,
           monotonic = 100\<rparr> = Inr r
        \<and> rapl_joules r = None)"
  (is "?p \<in> set ?ps \<and> \<not> is_numeric (energy_uj ?p) \<and> _ \<and> (\<exists>r. take_reading ?e = Inr r \<and> _)")
proof -
  have h1: "?p \<in> set ?ps" by simp
  have h2: "\<not> is_numeric (energy_uj ?p)" by (simp add: is_numeric_def)
  have ps: "rapl_packages ?e = Inr ?ps"
    by (simp add: rapl_packages_def is_package_def startswith_def)
  from unreadable_counter_makes_reading_absent [OF h1 h2, of ?e] ps h1 h2
  show ?thesis by blast
qed

text \<open>
  What \<open>take_reading\<close> does where the discovery returns: it returns a reading. Its
  timestamp is the value of the monotonic clock; \<open>rapl_joules\<close> is the sum of the counters in
  joules when packages are found and every counter file holds a number, and absent
  otherwise; \<open>cpu_time_seconds\<close> is the CPU time when psutil gives it, and absent when it
  raises. Where the discovery raises, \<open>take_reading\<close> raises the same exception.
\<close>

lemma take_reading_returns:
  assumes "rapl_packages e = Inr packages"
  shows "\<exists>r. take_reading e = Inr r
     \<and> timestamp r = monotonic e
     \<and> rapl_joules r =
         (if packages \<noteq> [] \<and> (\<forall>p\<in>set packages. is_numeric (energy_uj p))
          then Some (counter_sum_uj packages / 1000000) else None)
     \<and> cpu_time_seconds r =
         (case psutil_cpu_times e of
            Inl err \<Rightarrow> None
          | Inr cpu \<Rightarrow>
              Some (user cpu + system cpu
                    + (case children cpu of None \<Rightarrow> 0 | Some (cu, cs) \<Rightarrow> cu + cs)))"
proof -
  have cpu: "read_cpu_time e =
         (case psutil_cpu_times e of
            Inl err \<Rightarrow> None
          | Inr cpu \<Rightarrow>
              Some (user cpu + system cpu
                    + (case children cpu of None \<Rightarrow> 0 | Some (cu, cs) \<Rightarrow> cu + cs)))"
    by (simp add: read_cpu_time_def Let_def split: sum.splits option.splits)
  show ?thesis
  proof (cases "\<forall>p\<in>set packages. is_numeric (energy_uj p)")
    case True
    then have "read_rapl_uj packages = Inr (Some (counter_sum_uj packages))"
      by (simp add: read_rapl_uj_def read_rapl_uj_loop_numeric)
    with True cpu assms show ?thesis by (simp add: take_reading_def Let_def)
  next
    case False
    then have "read_rapl_uj packages = Inr None"
      by (simp add: read_rapl_uj_def read_rapl_uj_loop_absent)
    with False cpu assms show ?thesis by (auto simp: take_reading_def Let_def)
  qed
qed

lemma discovery_error_passes:
  "(take_reading e = Inl err) = (rapl_packages e = Inl err)"
proof (cases "rapl_packages e")
  case (Inl err')
  then show ?thesis by (simp add: take_reading_def)
next
  case (Inr packages)
  from take_reading_returns [OF this] Inr show ?thesis by auto
qed

text \<open>
  C9. The code at two environments where it leaves the claim. In the first the one package
  directory may not be searched, so that its counter file is unreadable; in the second the
  powercap directory may not be listed. The claim has a reading without \<open>rapl_joules\<close> in
  both; \<open>take_reading\<close> raises \<^verbatim>\<open>PermissionError\<close>, which \<^verbatim>\<open>_rapl_packages\<close> lets pass.
\<close>

theorem take_reading_raises:
  "take_reading
     \<lparr>rapl_base = Listing
        [\<lparr>name = ''intel-rapl:0'', energy_uj = Inaccessible,
           max_energy_range_uj = Inaccessible\<rparr>],
      psutil_cpu_times = Inr \<lparr>user = 1, system = 1, children = None\<rparr>,
      monotonic = 100\<rparr> = Inl PermissionError
   \<and> take_reading
     \<lparr>rapl_base = Unlistable,
      psutil_cpu_times = Inr \<lparr>user = 1, system = 1, children = None\<rparr>,
      monotonic = 100\<rparr> = Inl PermissionError"
  by (simp add: take_reading_def rapl_packages_def is_package_def startswith_def)

end
